theory Spec2Isabelle
  imports Main "HOL-Library.Word"
begin

unbundle bit_operations_syntax

section \<open>The session store of webca\<close>

text \<open>
  A shallow embedding of the session file of package webca: the process-wide registry
  \<^verbatim>\<open>sessions\<close>, the cookie binding \<^verbatim>\<open>requestSessionId\<close>, \<^verbatim>\<open>SessionFor\<close>,
  \<^verbatim>\<open>RemoveSession\<close>, the methods \<^verbatim>\<open>Id\<close>, \<^verbatim>\<open>Save\<close>, \<^verbatim>\<open>clone\<close>, \<^verbatim>\<open>expired\<close> of the
  map type \<^verbatim>\<open>session\<close>, the sweep \<^verbatim>\<open>cleanupSessions\<close> and the generator \<^verbatim>\<open>genId\<close>.

  Go maps are references. A \<^verbatim>\<open>session\<close> value is therefore an address into a heap of
  maps (or nil), and the registry maps an ID to the address of the stored map, so that
  aliasing between a caller's record and the stored record is visible in the model.
  The clock, the random source and the allocator are state: every call of
  \<^verbatim>\<open>time.Now\<close>, \<^verbatim>\<open>rand.Read\<close> and \<^verbatim>\<open>make\<close> advances a counter.
  Calls are atomic and there is no lock; \<^verbatim>\<open>SessionFor\<close> is given a second time,
  statement by statement, for the writes of a caller that fall inside a lookup.
\<close>

subsection \<open>Constants\<close>

type_synonym time = int \<comment> \<open>an instant, in nanoseconds\<close>

definition Minute :: int where
  "Minute = 60 * 1000000000"

definition Second :: int where
  "Second = 1000000000"

definition SESSIONID :: string where
  "SESSIONID = ''goSessionId''"

definition LASTUSED :: string where
  "LASTUSED = ''goLastUsed''"

definition CLEANUPDELAY :: int where
  "CLEANUPDELAY = Minute"

definition MAXSESSIONAGE :: int where
  "MAXSESSIONAGE = 30 * Minute"

subsection \<open>Values, errors, the world\<close>

text \<open>
  The values of type \<^verbatim>\<open>interface{}\<close> a session holds: nil, a string, a \<^verbatim>\<open>time.Time\<close>,
  or any other value (the callers store a \<^verbatim>\<open>User\<close>), which the session code only copies.
\<close>

datatype val = VNil | VStr string | VTime time | VOther nat

datatype error = ErrNoCookie | ErrOther nat | EOF | ErrUnexpectedEOF

datatype panic = NilMapWrite | TypeAssertion | NilDereference

type_synonym addr = nat

type_synonym smap = "string \<rightharpoonup> val"

type_synonym byte = "8 word"

text \<open>
  \<open>sessions\<close> is the package variable: \<open>None\<close> is the nil map it starts as.
  \<open>heap\<close> holds the contents of every session map, \<open>nxt\<close> is the next free address.
  \<open>clock\<close> gives the reading of the \<open>n\<close>-th call of \<^verbatim>\<open>time.Now\<close>, \<open>entropy\<close> what
  the random source has for the \<open>n\<close>-th call of \<^verbatim>\<open>rand.Read\<close>: the bytes it can deliver
  and the error it reports once they are used up (\<open>None\<close> when it just ends).
\<close>

record world =
  sessions :: "(string \<rightharpoonup> addr) option"
  heap :: "addr \<Rightarrow> smap"
  nxt :: addr
  clock :: "nat \<Rightarrow> time"
  ticks :: nat
  entropy :: "nat \<Rightarrow> byte list \<times> error option"
  reads :: nat

definition init :: "(nat \<Rightarrow> time) \<Rightarrow> (nat \<Rightarrow> byte list \<times> error option) \<Rightarrow> world" where
  "init clk ent =
     \<lparr>sessions = None, heap = (\<lambda>_. Map.empty), nxt = 0,
      clock = clk, ticks = 0, entropy = ent, reads = 0\<rparr>"

text \<open>\<^verbatim>\<open>time.Now()\<close>.\<close>

definition time_Now :: "world \<Rightarrow> time \<times> world" where
  "time_Now st = (clock st (ticks st), st\<lparr>ticks := ticks st + 1\<rparr>)"

text \<open>\<^verbatim>\<open>t.Sub(u)\<close>: a \<^verbatim>\<open>Duration\<close> is an int64 and the difference saturates.\<close>

definition maxDuration :: int where
  "maxDuration = 2 ^ 63 - 1"

definition minDuration :: int where
  "minDuration = - (2 ^ 63)"

definition time_Sub :: "time \<Rightarrow> time \<Rightarrow> int" where
  "time_Sub t u =
     (let d = t - u in
      if d > maxDuration then maxDuration
      else if d < minDuration then minDuration
      else d)"

text \<open>
  \<^verbatim>\<open>rand.Read(b)\<close> on a zeroed buffer of \<open>len\<close> bytes. It is \<^verbatim>\<open>io.ReadFull\<close> on
  the random source: it reads until the buffer is full or the source fails, so the error
  is nil exactly when \<open>len\<close> bytes were read. A source that ends early gives
  \<^verbatim>\<open>io.EOF\<close> when nothing was read and \<^verbatim>\<open>io.ErrUnexpectedEOF\<close> otherwise. The result is
  the buffer, the number of bytes read and the error.
\<close>

definition rand_Read :: "world \<Rightarrow> nat \<Rightarrow> (byte list \<times> nat \<times> error option) \<times> world" where
  "rand_Read st len =
     (let (data, e) = entropy st (reads st);
          got = take len data;
          err =
            (if length got = len then None
             else Some (case e of
                          Some x \<Rightarrow> x
                        | None \<Rightarrow> if got = [] then EOF else ErrUnexpectedEOF))
      in ((got @ replicate (len - length got) 0, length got, err),
          st\<lparr>reads := reads st + 1\<rparr>))"

subsection \<open>Cookies, requests and responses\<close>

text \<open>
  What the code uses of \<^verbatim>\<open>net/http\<close>. A request carries the cookies of its
  \<^verbatim>\<open>Cookie\<close> header as name and value pairs; \<open>fault\<close> is the code of the error, if
  any, that reading a cookie from this request reports apart from \<^verbatim>\<open>ErrNoCookie\<close>.
  A response is the list of cookies set on it. Names and values are kept as they are:
  \<^verbatim>\<open>net/http\<close> drops bytes that a cookie cannot carry, and the name
  \<^verbatim>\<open>goSessionId\<close> and the hexadecimal identifiers of \<^verbatim>\<open>genId\<close> have none.
\<close>

record cookie =
  Name :: string
  Value :: string
  Path :: string
  MaxAge :: int

record request =
  jar :: "(string \<times> string) list"
  fault :: "nat option"

type_synonym response = "cookie list"

text \<open>\<^verbatim>\<open>r.Cookie(name)\<close>: the first cookie of that name, or \<^verbatim>\<open>ErrNoCookie\<close>.\<close>

definition Cookie :: "request \<Rightarrow> string \<Rightarrow> cookie option \<times> error option" where
  "Cookie r name =
     (case fault r of
        Some n \<Rightarrow> (None, Some (ErrOther n))
      | None \<Rightarrow>
          (case find (\<lambda>c. fst c = name) (jar r) of
             None \<Rightarrow> (None, Some ErrNoCookie)
           | Some c \<Rightarrow> (Some \<lparr>Name = fst c, Value = snd c, Path = [], MaxAge = 0\<rparr>, None)))"

text \<open>\<^verbatim>\<open>r.AddCookie(c)\<close> appends name and value to the request's cookies.\<close>

definition AddCookie :: "request \<Rightarrow> cookie \<Rightarrow> request" where
  "AddCookie r c = r\<lparr>jar := jar r @ [(Name c, Value c)]\<rparr>"

text \<open>\<^verbatim>\<open>http.SetCookie(w, c)\<close> adds a \<^verbatim>\<open>Set-Cookie\<close> header to the response.\<close>

definition SetCookie :: "response \<Rightarrow> cookie \<Rightarrow> response" where
  "SetCookie w c = w @ [c]"

subsection \<open>The identifier generator\<close>

definition hextable :: string where
  "hextable = ''0123456789abcdef''"

text \<open>\<^verbatim>\<open>hex.EncodeToString\<close>: two digits for each byte, high nibble first.\<close>

fun EncodeToString :: "byte list \<Rightarrow> string" where
  "EncodeToString [] = []"
| "EncodeToString (v # src) =
     hextable ! unat (drop_bit 4 v) # hextable ! unat (v AND 0x0f) # EncodeToString src"

text \<open>\<^verbatim>\<open>genId\<close> returns the pair of Go: the identifier and the error (\<open>None\<close> is nil).\<close>

definition genId :: "world \<Rightarrow> (string \<times> error option) \<times> world" where
  "genId st =
     (let ((uuid, n, err), st1) = rand_Read st 16 in
      if n \<noteq> length uuid \<or> err \<noteq> None then (([], err), st1)
      else
        (let uuid = uuid[8 := 0x80];
             uuid = uuid[4 := 0x40]
         in ((EncodeToString uuid, None), st1)))"

subsection \<open>The cookie binding\<close>

text \<open>
  \<^verbatim>\<open>requestSessionId(w, r)\<close> returns the pair of Go and the world, the response and the
  request as it leaves them. In the last branch the cookie is not nil.
\<close>

definition requestSessionId ::
  "world \<Rightarrow> response \<Rightarrow> request \<Rightarrow> (string \<times> error option) \<times> world \<times> response \<times> request" where
  "requestSessionId st w r =
     (let (cookie, e) = Cookie r SESSIONID in
      if e \<noteq> None \<and> e \<noteq> Some ErrNoCookie then (([], e), st, w, r)
      else if e = Some ErrNoCookie \<or> cookie = None then
        (let ((sid, e2), st1) = genId st in
         if e2 \<noteq> None then (([], e2), st1, w, r)
         else
           (let c = \<lparr>Name = SESSIONID, Value = sid, Path = ''/'', MaxAge = 0\<rparr>
            in ((Value c, None), st1, SetCookie w c, AddCookie r c)))
      else ((Value (the cookie), None), st, w, r))"

subsection \<open>Session maps\<close>

text \<open>\<^verbatim>\<open>s[k]\<close> read from a session: nil for a nil map and for a missing key.\<close>

definition sindex :: "world \<Rightarrow> addr option \<Rightarrow> string \<Rightarrow> val" where
  "sindex st s k =
     (case s of
        None \<Rightarrow> VNil
      | Some a \<Rightarrow> (case heap st a k of None \<Rightarrow> VNil | Some v \<Rightarrow> v))"

text \<open>The entries of a session: none for the nil map.\<close>

definition entries :: "world \<Rightarrow> addr option \<Rightarrow> smap" where
  "entries st s = (case s of None \<Rightarrow> Map.empty | Some a \<Rightarrow> heap st a)"

text \<open>\<^verbatim>\<open>sessions[k]\<close> read from the registry: nil for the nil map and for a missing key.\<close>

definition sessions_get :: "world \<Rightarrow> string \<Rightarrow> addr option" where
  "sessions_get st k = (case sessions st of None \<Rightarrow> None | Some reg \<Rightarrow> reg k)"

text \<open>\<^verbatim>\<open>s.Id()\<close>: the type assertion panics on a value that is not a string.\<close>

definition Id :: "world \<Rightarrow> addr option \<Rightarrow> panic + string" where
  "Id st s =
     (if sindex st s SESSIONID \<noteq> VNil then
        (case sindex st s SESSIONID of VStr x \<Rightarrow> Inr x | _ \<Rightarrow> Inl TypeAssertion)
      else Inr [])"

text \<open>\<^verbatim>\<open>s.clone()\<close>: a new map with every entry of \<open>s\<close>.\<close>

definition clone :: "world \<Rightarrow> addr option \<Rightarrow> addr \<times> world" where
  "clone st s =
     (let c = nxt st
      in (c, st\<lparr>heap := (heap st)(c := entries st s), nxt := c + 1\<rparr>))"

text \<open>
  \<^verbatim>\<open>s.Save()\<close>: \<^verbatim>\<open>sessions[s.Id()] = s.clone()\<close>. Both calls are evaluated, then the
  assignment panics when \<^verbatim>\<open>sessions\<close> is nil. There is no error result.
\<close>

definition Save :: "world \<Rightarrow> addr option \<Rightarrow> panic option \<times> world" where
  "Save st s =
     (case Id st s of
        Inl p \<Rightarrow> (Some p, st)
      | Inr sid \<Rightarrow>
          (let (c, st1) = clone st s in
           case sessions st1 of
             None \<Rightarrow> (Some NilMapWrite, st1)
           | Some reg \<Rightarrow> (None, st1\<lparr>sessions := Some (reg(sid \<mapsto> c))\<rparr>)))"

text \<open>\<^verbatim>\<open>s.expired()\<close>: reads the clock, then asserts that the timestamp is a time.\<close>

definition expired :: "world \<Rightarrow> addr option \<Rightarrow> (panic + bool) \<times> world" where
  "expired st s =
     (let (now, st1) = time_Now st in
      case sindex st1 s LASTUSED of
        VTime t \<Rightarrow> (Inr (time_Sub now t \<ge> MAXSESSIONAGE), st1)
      | _ \<Rightarrow> (Inl TypeAssertion, st1))"

subsection \<open>The registry\<close>

text \<open>
  Lines 73 to 85 of \<^verbatim>\<open>SessionFor\<close>, for the identifier \<open>sid\<close>: create the registry when
  it is nil, create the record when it is missing, stamp the stored record, return a clone.
\<close>

definition SessionFor_id :: "world \<Rightarrow> string \<Rightarrow> addr \<times> world" where
  "SessionFor_id st sid =
     (let reg = (case sessions st of None \<Rightarrow> Map.empty | Some m \<Rightarrow> m);
          (s, st1) =
            (case reg sid of
               Some a \<Rightarrow> (a, st\<lparr>sessions := Some reg\<rparr>)
             | None \<Rightarrow>
                 (let a = nxt st
                  in (a, st\<lparr>sessions := Some (reg(sid \<mapsto> a)),
                            heap := (heap st)(a := [SESSIONID \<mapsto> VStr sid]),
                            nxt := a + 1\<rparr>)));
          (now, st2) = time_Now st1;
          st3 = st2\<lparr>heap := (heap st2)(s := (heap st2 s)(LASTUSED \<mapsto> VTime now))\<rparr>
      in clone st3 (Some s))"

definition SessionFor ::
  "world \<Rightarrow> response \<Rightarrow> request \<Rightarrow> (addr option \<times> error option) \<times> world \<times> response \<times> request" where
  "SessionFor st w r =
     (let ((sid, e), st1, w1, r1) = requestSessionId st w r in
      if e \<noteq> None then ((None, e), st1, w1, r1)
      else (let (c, st2) = SessionFor_id st1 sid in ((Some c, None), st2, w1, r1)))"

text \<open>
  \<^verbatim>\<open>RemoveSession(w, r)\<close>. \<^verbatim>\<open>delete\<close> on a nil map does nothing. Reading
  \<^verbatim>\<open>cookie.Value\<close> of a nil cookie would panic.
\<close>

definition RemoveSession :: "world \<Rightarrow> response \<Rightarrow> request \<Rightarrow> panic option \<times> world \<times> response" where
  "RemoveSession st w r =
     (let (cookie, e) = Cookie r SESSIONID in
      if e \<noteq> None then (None, st, w)
      else
        (case cookie of
           None \<Rightarrow> (Some NilDereference, st, w)
         | Some c \<Rightarrow>
             (let st1 = st\<lparr>sessions := map_option (\<lambda>reg. reg(Value c := None)) (sessions st)\<rparr>;
                  c1 = c\<lparr>MaxAge := 0\<rparr>
              in (None, st1, SetCookie w c1))))"

text \<open>
  \<^verbatim>\<open>cleanupSessions\<close>. The order in which \<^verbatim>\<open>range\<close> visits a map is not specified:
  \<open>ks\<close> is the order of the keys it takes. A key deleted before it is reached is not
  visited; a nil map has no entries. A panic of \<^verbatim>\<open>expired\<close> ends the sweep.
  The line written to the log for each removal is left out.
\<close>

fun cleanupSessions :: "string list \<Rightarrow> world \<Rightarrow> panic option \<times> world" where
  "cleanupSessions [] st = (None, st)"
| "cleanupSessions (k # ks) st =
     (case sessions st of
        None \<Rightarrow> (None, st)
      | Some reg \<Rightarrow>
          (case reg k of
             None \<Rightarrow> cleanupSessions ks st
           | Some s \<Rightarrow>
               (case expired st (Some s) of
                  (Inl p, st1) \<Rightarrow> (Some p, st1)
                | (Inr b, st1) \<Rightarrow>
                    cleanupSessions ks
                      (if b then st1\<lparr>sessions := Some (reg(k := None))\<rparr> else st1))))"

subsection \<open>Runs of the process\<close>

text \<open>
  What the process does to the world, one call after the other: the four operations of the
  store, and a caller writing to the session map at an address (\<^verbatim>\<open>s[k] = v\<close>,
  \<^verbatim>\<open>delete(s, k)\<close>), where \<open>m\<close> is what the map holds afterwards.
  A panic leaves the world as it was when it was raised.
\<close>

definition write_session :: "addr \<Rightarrow> smap \<Rightarrow> world \<Rightarrow> world" where
  "write_session a m st = st\<lparr>heap := (heap st)(a := m)\<rparr>"

datatype op =
    OpSessionFor request
  | OpSave "addr option"
  | OpRemoveSession request
  | OpCleanup "string list"
  | OpWrite addr smap

fun isSessionFor :: "op \<Rightarrow> bool" where
  "isSessionFor (OpSessionFor r) = True"
| "isSessionFor _ = False"

fun step :: "op \<Rightarrow> world \<Rightarrow> world" where
  "step (OpSessionFor r) st = fst (snd (SessionFor st [] r))"
| "step (OpSave s) st = snd (Save st s)"
| "step (OpRemoveSession r) st = fst (snd (RemoveSession st [] r))"
| "step (OpCleanup ks) st = snd (cleanupSessions ks st)"
| "step (OpWrite a m) st = write_session a m st"

fun run :: "op list \<Rightarrow> world \<Rightarrow> world" where
  "run [] st = st"
| "run (x # xs) st = run xs (step x st)"

text \<open>The timestamp of the record the registry holds for an identifier.\<close>

definition stored_lastUsed :: "world \<Rightarrow> string \<Rightarrow> time option" where
  "stored_lastUsed st sid =
     (case sindex st (sessions_get st sid) LASTUSED of VTime t \<Rightarrow> Some t | _ \<Rightarrow> None)"



subsection \<open>A lookup, statement by statement\<close>

text \<open>
  The same \<^verbatim>\<open>SessionFor\<close>, one statement at a time, for runs in which another goroutine
  writes to a map between two statements of a lookup. A point is the statement a lookup is
  about to run, with the local variables it has set by then: the identifier, the session
  \<^verbatim>\<open>s\<close>, the clone \<^verbatim>\<open>c\<close> and the keys that \<^verbatim>\<open>range\<close> has still to yield.
  \<open>PBind\<close> is the call of \<^verbatim>\<open>requestSessionId\<close> (it touches no session map), \<open>PInit\<close>
  lines 75 to 77, \<open>PLoad\<close> lines 78 and 79, \<open>PMake\<close>, \<open>PSetId\<close> and \<open>PStore\<close> lines 80
  to 82, \<open>PStamp\<close> line 84, \<open>PClone\<close> line 118 and \<open>PCopy\<close> one turn of the loop of lines
  119 to 121; \<open>PDone\<close> carries what the call returns.
\<close>

datatype point =
    PBind
  | PInit string
  | PLoad string
  | PMake string
  | PSetId string addr
  | PStore string addr
  | PStamp addr
  | PClone addr
  | PCopy addr addr "string list"
  | PDone "addr option" "error option"
  | PPanic panic

text \<open>
  The frame of a lookup: its point, its response and request, and the order in which
  \<^verbatim>\<open>range\<close> will yield the keys of the session it clones.
\<close>

record frame =
  pc :: point
  fw :: response
  fr :: request
  forder :: "string list"







subsection \<open>Example worlds\<close>

text \<open>
  A request that carries the session cookie \<open>abc\<close>; a process that has just started,
  whose clock advances by a minute at each reading; that process after its first lookup
  for \<open>abc\<close> (the stored record at address 0, the caller's copy at address 1); and
  the same after the caller has written a user into its copy.
\<close>

definition abc_request :: request where
  "abc_request = \<lparr>jar = [(SESSIONID, ''abc'')], fault = None\<rparr>"

definition fresh_world :: world where
  "fresh_world = init (\<lambda>n. int n * Minute) (\<lambda>n. ([], None))"

definition abc_world :: world where
  "abc_world =
     \<lparr>sessions = Some [''abc'' \<mapsto> 0],
      heap = (\<lambda>_. Map.empty)
        (0 := [SESSIONID \<mapsto> VStr ''abc'', LASTUSED \<mapsto> VTime 0],
         1 := [SESSIONID \<mapsto> VStr ''abc'', LASTUSED \<mapsto> VTime 0]),
      nxt = 2, clock = (\<lambda>n. int n * Minute), ticks = 1,
      entropy = (\<lambda>n. ([], None)), reads = 0\<rparr>"

definition login_world :: world where
  "login_world =
     write_session 1
       [SESSIONID \<mapsto> VStr ''abc'', LASTUSED \<mapsto> VTime 0, ''LoggedUser'' \<mapsto> VOther 5]
       abc_world"

text \<open>
  A registry with two records, at a moment when the clock reads 30 minutes and a second:
  \<open>old\<close> was last used at 0, \<open>new\<close> a minute and a second later.
\<close>

definition sweep_world :: world where
  "sweep_world =
     \<lparr>sessions = Some [''old'' \<mapsto> 0, ''new'' \<mapsto> 1],
      heap = (\<lambda>_. Map.empty)
        (0 := [SESSIONID \<mapsto> VStr ''old'', LASTUSED \<mapsto> VTime 0],
         1 := [SESSIONID \<mapsto> VStr ''new'', LASTUSED \<mapsto> VTime (61 * Second)]),
      nxt = 2, clock = (\<lambda>n. 30 * Minute + Second), ticks = 0,
      entropy = (\<lambda>n. ([], None)), reads = 0\<rparr>"

section \<open>Properties\<close>

subsection \<open>The registry before its first lookup\<close>

lemma cleanupSessions_nil: "sessions st = None \<Longrightarrow> cleanupSessions ks st = (None, st)"
  by (cases ks) simp_all

lemma Save_nil:
  "sessions st = None \<Longrightarrow>
   fst (Save st s) = Some (case Id st s of Inl p \<Rightarrow> p | Inr x \<Rightarrow> NilMapWrite)
   \<and> sessions (snd (Save st s)) = None"
  by (simp add: Save_def clone_def Let_def split: sum.splits)

lemma step_sessions_nil:
  "sessions st = None \<Longrightarrow> \<not> isSessionFor x \<Longrightarrow> sessions (step x st) = None"
  by (cases x)
    (simp_all add: Save_nil cleanupSessions_nil RemoveSession_def write_session_def
       split: prod.splits option.splits)

lemma run_sessions_nil:
  "sessions st = None \<Longrightarrow> \<forall>x\<in>set ops. \<not> isSessionFor x \<Longrightarrow> sessions (run ops st) = None"
  by (induction ops arbitrary: st) (simp_all add: step_sessions_nil)

text \<open>
  C10. In a process that has not called \<^verbatim>\<open>SessionFor\<close> yet, whatever else it has done
  (saves, removals, sweeps, writes to session maps), \<^verbatim>\<open>Save\<close> panics: the registry is
  still the nil map, only \<^verbatim>\<open>SessionFor\<close> creates it, and \<^verbatim>\<open>Save\<close> assigns into it
  without a check. The panic is the write to the nil map, unless \<^verbatim>\<open>Id\<close> has already
  panicked on an identifier that is not a string. The registry is nil afterwards too.
\<close>

theorem Save_before_SessionFor_panics:
  assumes "\<forall>x\<in>set ops. \<not> isSessionFor x"
  shows "fst (Save (run ops (init clk ent)) s)
           = Some (case Id (run ops (init clk ent)) s of Inl p \<Rightarrow> p | Inr x \<Rightarrow> NilMapWrite)
         \<and> sessions (snd (Save (run ops (init clk ent)) s)) = None"
proof -
  have "sessions (init clk ent) = None"
    by (simp add: init_def)
  then have "sessions (run ops (init clk ent)) = None"
    using assms by (rule run_sessions_nil)
  then show ?thesis
    by (rule Save_nil)
qed

theorem Save_before_SessionFor_panics_witness:
  "\<not> list_ex isSessionFor
          [OpRemoveSession \<lparr>jar = [(SESSIONID, ''abc'')], fault = None\<rparr>,
           OpCleanup [''abc''], OpSave None]
   \<and> fst (Save (run [OpRemoveSession \<lparr>jar = [(SESSIONID, ''abc'')], fault = None\<rparr>,
                     OpCleanup [''abc''], OpSave None]
                  (init (\<lambda>n. 0) (\<lambda>n. ([], None)))) None) = Some NilMapWrite"
  using Save_before_SessionFor_panics
    [of "[OpRemoveSession \<lparr>jar = [(SESSIONID, ''abc'')], fault = None\<rparr>,
          OpCleanup [''abc''], OpSave None]" "\<lambda>n. 0" "\<lambda>n. ([], None)" None]
  by (simp add: Id_def sindex_def)

subsection \<open>Removal\<close>

text \<open>
  C9. When reading the session cookie of the request reports an error, whichever it is
  (\<^verbatim>\<open>ErrNoCookie\<close> or any other), \<^verbatim>\<open>RemoveSession\<close> does nothing: it returns
  normally, the world, and so the registry, is the one it was given, and the response
  is the one it was given, with no cookie added. It has no result that could carry the error.
\<close>

theorem RemoveSession_cookie_error_noop:
  "snd (Cookie r SESSIONID) \<noteq> None \<Longrightarrow> RemoveSession st w r = (None, st, w)"
  by (auto simp: RemoveSession_def split: prod.splits)

theorem RemoveSession_cookie_error_noop_witness:
  "snd (Cookie \<lparr>jar = [(SESSIONID, ''abc'')], fault = Some 7\<rparr> SESSIONID) \<noteq> None
   \<and> RemoveSession (init (\<lambda>n. 0) (\<lambda>n. ([], None))) []
        \<lparr>jar = [(SESSIONID, ''abc'')], fault = Some 7\<rparr>
       = (None, init (\<lambda>n. 0) (\<lambda>n. ([], None)), [])"
  using RemoveSession_cookie_error_noop
    [of "\<lparr>jar = [(SESSIONID, ''abc'')], fault = Some 7\<rparr>" "init (\<lambda>n. 0) (\<lambda>n. ([], None))" "[]"]
  by (simp add: Cookie_def)

subsection \<open>Saving a record that has no identifier\<close>

text \<open>
  C1, as the spec states it, fails. A caller looks a session up for the cookie \<open>abc\<close>,
  deletes the identifier key from the record it was given (address 1), and saves it.
  \<^verbatim>\<open>Id\<close> returns the empty string, \<^verbatim>\<open>Save\<close> returns normally, and the registry,
  which had no entry for the empty string, now has one.
\<close>

theorem Save_without_identifier_counterexample:
  "Id (run [OpSessionFor \<lparr>jar = [(SESSIONID, ''abc'')], fault = None\<rparr>,
            OpWrite 1 [LASTUSED \<mapsto> VTime 0]]
         (init (\<lambda>n. int n) (\<lambda>n. ([], None)))) (Some 1) = Inr []
   \<and> fst (Save (run [OpSessionFor \<lparr>jar = [(SESSIONID, ''abc'')], fault = None\<rparr>,
                     OpWrite 1 [LASTUSED \<mapsto> VTime 0]]
                  (init (\<lambda>n. int n) (\<lambda>n. ([], None)))) (Some 1)) = None
   \<and> sessions_get (run [OpSessionFor \<lparr>jar = [(SESSIONID, ''abc'')], fault = None\<rparr>,
                        OpWrite 1 [LASTUSED \<mapsto> VTime 0]]
                     (init (\<lambda>n. int n) (\<lambda>n. ([], None)))) [] = None
   \<and> sessions_get (snd (Save (run [OpSessionFor \<lparr>jar = [(SESSIONID, ''abc'')], fault = None\<rparr>,
                                   OpWrite 1 [LASTUSED \<mapsto> VTime 0]]
                                (init (\<lambda>n. int n) (\<lambda>n. ([], None)))) (Some 1))) [] = Some 2"
  by (simp add: SessionFor_def requestSessionId_def Cookie_def SessionFor_id_def clone_def
      time_Now_def init_def Save_def Id_def sindex_def sessions_get_def entries_def
      write_session_def SESSIONID_def LASTUSED_def Let_def)

text \<open>
  C1, amended. For every record whose identifier key is absent (or nil), the identifier
  lookup returns the empty string, and in a process whose registry exists \<^verbatim>\<open>Save\<close>
  reports nothing and does not panic: it stores a copy of the record, at a new address,
  under the empty string, and changes nothing else.
\<close>

theorem Save_without_identifier:
  assumes "sindex st s SESSIONID = VNil" and "sessions st = Some reg"
  shows "Id st s = Inr []
    \<and> Save st s = (None, st\<lparr>sessions := Some (reg([] \<mapsto> nxt st)),
                            heap := (heap st)(nxt st := entries st s),
                            nxt := nxt st + 1\<rparr>)"
  using assms by (simp add: Id_def Save_def clone_def Let_def)

theorem Save_without_identifier_witness:
  "sindex (init (\<lambda>n. 0) (\<lambda>n. ([], None))\<lparr>sessions := Some Map.empty\<rparr>) None SESSIONID = VNil
   \<and> fst (Save (init (\<lambda>n. 0) (\<lambda>n. ([], None))\<lparr>sessions := Some Map.empty\<rparr>) None) = None
   \<and> sessions_get
        (snd (Save (init (\<lambda>n. 0) (\<lambda>n. ([], None))\<lparr>sessions := Some Map.empty\<rparr>) None)) []
       = Some 0"
  using Save_without_identifier
    [of "init (\<lambda>n. 0) (\<lambda>n. ([], None))\<lparr>sessions := Some Map.empty\<rparr>" None Map.empty]
  by (simp add: sindex_def init_def sessions_get_def)

subsection \<open>The identifier generator\<close>

text \<open>The read is full exactly when it reports no error.\<close>

lemma rand_Read_full:
  "rand_Read st len = ((buf, n, err), st1) \<Longrightarrow>
   length buf = len \<and> n \<le> len \<and> (n = len \<longleftrightarrow> err = None)"
  by (auto simp: rand_Read_def Let_def split: prod.splits if_splits)

text \<open>What \<^verbatim>\<open>genId\<close> returns, for every outcome of the read.\<close>

lemma genId_success:
  assumes "entropy st (reads st) = (data, e)" and "16 \<le> length data"
  shows "genId st = ((EncodeToString ((take 16 data)[8 := 0x80, 4 := 0x40]), None),
                     st\<lparr>reads := reads st + 1\<rparr>)"
  using assms by (simp add: genId_def rand_Read_def Let_def)

lemma genId_failure:
  assumes "entropy st (reads st) = (data, e)" and "length data < 16"
  shows "genId st
     = (([], Some (case e of
                     Some x \<Rightarrow> x
                   | None \<Rightarrow> if data = [] then EOF else ErrUnexpectedEOF)),
        st\<lparr>reads := reads st + 1\<rparr>)"
  using assms by (simp add: genId_def rand_Read_def Let_def)

lemma length_EncodeToString: "length (EncodeToString bs) = 2 * length bs"
  by (induction bs) simp_all

text \<open>
  C5. The random source delivers sixteen bytes \<open>0xff\<close>. The identifier is not those
  bytes with the high nibble of byte 6 set to 4 and the high two bits of byte 8 set to
  \<open>10\<close>, which would be \<open>ffffffffffff4fffbfffffffffffffff\<close>: \<^verbatim>\<open>genId\<close> leaves byte 6 as
  it is and replaces the whole of byte 4 by \<open>0x40\<close> and the whole of byte 8 by \<open>0x80\<close>.
\<close>

theorem genId_overwrites_bytes_4_and_8:
  "fst (genId (init (\<lambda>n. 0)
     (\<lambda>n. ([0xff, 0xff, 0xff, 0xff, 0xff, 0xff, 0xff, 0xff,
            0xff, 0xff, 0xff, 0xff, 0xff, 0xff, 0xff, 0xff], None))))
   = (''ffffffff40ffffff80ffffffffffffff'', None)"
  by (simp add: genId_def rand_Read_def init_def hextable_def)

theorem genId_overwrites_bytes_4_and_8_witness:
  "fst (fst (genId (init (\<lambda>n. 0)
     (\<lambda>n. ([0xff, 0xff, 0xff, 0xff, 0xff, 0xff, 0xff, 0xff,
            0xff, 0xff, 0xff, 0xff, 0xff, 0xff, 0xff, 0xff], None)))))
   \<noteq> ''ffffffffffff4fffbfffffffffffffff''"
  using genId_overwrites_bytes_4_and_8 by simp

text \<open>
  C6. Whenever the read of the random source does not give exactly 16 bytes, or reports an
  error, \<^verbatim>\<open>genId\<close> returns the empty identifier together with an error that is not nil,
  the one the read reported. The error is not dropped further up: for a request with no
  session cookie \<^verbatim>\<open>requestSessionId\<close> returns the empty identifier with that error and
  sets no cookie, on the response or on the request, and \<^verbatim>\<open>SessionFor\<close> returns a nil
  session with that error.
\<close>

theorem genId_fails_hard:
  assumes "rand_Read st 16 = ((buf, n, err), st1)" and "n \<noteq> 16 \<or> err \<noteq> None"
  shows "\<exists>e. err = Some e
    \<and> genId st = (([], Some e), st1)
    \<and> (Cookie r SESSIONID = (None, Some ErrNoCookie) \<longrightarrow>
         requestSessionId st w r = (([], Some e), st1, w, r)
         \<and> SessionFor st w r = ((None, Some e), st1, w, r))"
proof -
  have "n = 16 \<longleftrightarrow> err = None" and len: "length buf = 16"
    using rand_Read_full [OF assms(1)] by simp_all
  then obtain e where e: "err = Some e"
    using assms(2) by (cases err) auto
  have g: "genId st = (([], Some e), st1)"
    using assms(1) by (simp add: genId_def e)
  have "requestSessionId st w r = (([], Some e), st1, w, r)"
    if "Cookie r SESSIONID = (None, Some ErrNoCookie)"
    using that by (simp add: requestSessionId_def g)
  then show ?thesis
    using e g by (simp add: SessionFor_def)
qed

theorem genId_fails_hard_witness:
  "rand_Read (init (\<lambda>n. 0) (\<lambda>n. ([1, 2, 3, 4, 5, 6, 7, 8], None))) 16
     = (([1, 2, 3, 4, 5, 6, 7, 8, 0, 0, 0, 0, 0, 0, 0, 0], 8, Some ErrUnexpectedEOF),
        init (\<lambda>n. 0) (\<lambda>n. ([1, 2, 3, 4, 5, 6, 7, 8], None))\<lparr>reads := 1\<rparr>)
   \<and> fst (genId (init (\<lambda>n. 0) (\<lambda>n. ([1, 2, 3, 4, 5, 6, 7, 8], None))))
       = ([], Some ErrUnexpectedEOF)
   \<and> fst (SessionFor (init (\<lambda>n. 0) (\<lambda>n. ([1, 2, 3, 4, 5, 6, 7, 8], None))) []
            \<lparr>jar = [], fault = None\<rparr>)
       = (None, Some ErrUnexpectedEOF)"
proof -
  have h1: "rand_Read (init (\<lambda>n. 0) (\<lambda>n. ([1, 2, 3, 4, 5, 6, 7, 8], None))) 16
     = (([1, 2, 3, 4, 5, 6, 7, 8, 0, 0, 0, 0, 0, 0, 0, 0], 8, Some ErrUnexpectedEOF),
        init (\<lambda>n. 0) (\<lambda>n. ([1, 2, 3, 4, 5, 6, 7, 8], None))\<lparr>reads := 1\<rparr>)"
    by (simp add: rand_Read_def init_def Let_def) (simp add: numeral_eq_Suc)
  have h2: "(8::nat) \<noteq> 16 \<or> Some ErrUnexpectedEOF \<noteq> (None :: error option)"
    by simp
  have c: "Cookie \<lparr>jar = [], fault = None\<rparr> SESSIONID = (None, Some ErrNoCookie)"
    by (simp add: Cookie_def)
  show ?thesis
    using h1 c genId_fails_hard [OF h1 h2, of "\<lparr>jar = [], fault = None\<rparr>" "[]"]
    by simp
qed

subsection \<open>The cookie binding\<close>

lemma find_append_None: "find P xs = None \<Longrightarrow> find P (xs @ ys) = find P ys"
  by (induction xs) (simp_all split: if_splits)

text \<open>
  C4. For a request with no session cookie, when the generator returns the identifier
  \<open>sid\<close> with a nil error, \<^verbatim>\<open>requestSessionId\<close> returns \<open>sid\<close>, adds to the response
  the cookie named \<^verbatim>\<open>goSessionId\<close> with value \<open>sid\<close> and path \<open>/\<close>, and appends that
  cookie to the request. Asked again for that request, in any world and with any response,
  it returns \<open>sid\<close> again and changes nothing: the random source is not read, no cookie is
  set and the request stays as it is.
\<close>

theorem requestSessionId_binds_fresh_id:
  assumes "Cookie r SESSIONID = (None, Some ErrNoCookie)"
    and "genId st = ((sid, None), st1)"
  shows "requestSessionId st w r
           = ((sid, None), st1,
              w @ [\<lparr>Name = SESSIONID, Value = sid, Path = ''/'', MaxAge = 0\<rparr>],
              r\<lparr>jar := jar r @ [(SESSIONID, sid)]\<rparr>)
         \<and> requestSessionId st' w' (r\<lparr>jar := jar r @ [(SESSIONID, sid)]\<rparr>)
           = ((sid, None), st', w', r\<lparr>jar := jar r @ [(SESSIONID, sid)]\<rparr>)"
proof -
  from assms(1) have nofault: "fault r = None"
    and nocookie: "find (\<lambda>c. fst c = SESSIONID) (jar r) = None"
    by (auto simp: Cookie_def split: option.splits)
  have first: "requestSessionId st w r
           = ((sid, None), st1,
              w @ [\<lparr>Name = SESSIONID, Value = sid, Path = ''/'', MaxAge = 0\<rparr>],
              r\<lparr>jar := jar r @ [(SESSIONID, sid)]\<rparr>)"
    using assms by (simp add: requestSessionId_def SetCookie_def AddCookie_def)
  have "find (\<lambda>c. fst c = SESSIONID) (jar r @ [(SESSIONID, sid)]) = Some (SESSIONID, sid)"
    using nocookie by (simp add: find_append_None)
  then have "Cookie (r\<lparr>jar := jar r @ [(SESSIONID, sid)]\<rparr>) SESSIONID
      = (Some \<lparr>Name = SESSIONID, Value = sid, Path = [], MaxAge = 0\<rparr>, None)"
    using nofault by (simp add: Cookie_def)
  then have "requestSessionId st' w' (r\<lparr>jar := jar r @ [(SESSIONID, sid)]\<rparr>)
           = ((sid, None), st', w', r\<lparr>jar := jar r @ [(SESSIONID, sid)]\<rparr>)"
    by (simp add: requestSessionId_def)
  with first show ?thesis by simp
qed

theorem requestSessionId_binds_fresh_id_witness:
  "Cookie \<lparr>jar = [(''lang'', ''en'')], fault = None\<rparr> SESSIONID = (None, Some ErrNoCookie)
   \<and> requestSessionId
        (init (\<lambda>n. 0)
          (\<lambda>n. ([0xff, 0xff, 0xff, 0xff, 0xff, 0xff, 0xff, 0xff,
                 0xff, 0xff, 0xff, 0xff, 0xff, 0xff, 0xff, 0xff], None)))
        [] \<lparr>jar = [(''lang'', ''en'')], fault = None\<rparr>
      = ((''ffffffff40ffffff80ffffffffffffff'', None),
         init (\<lambda>n. 0)
          (\<lambda>n. ([0xff, 0xff, 0xff, 0xff, 0xff, 0xff, 0xff, 0xff,
                 0xff, 0xff, 0xff, 0xff, 0xff, 0xff, 0xff, 0xff], None))\<lparr>reads := 1\<rparr>,
         [\<lparr>Name = SESSIONID, Value = ''ffffffff40ffffff80ffffffffffffff'', Path = ''/'',
           MaxAge = 0\<rparr>],
         \<lparr>jar = [(''lang'', ''en''), (SESSIONID, ''ffffffff40ffffff80ffffffffffffff'')],
          fault = None\<rparr>)
   \<and> fst (requestSessionId (init (\<lambda>n. 0) (\<lambda>n. ([], None))) []
        \<lparr>jar = [(''lang'', ''en''), (SESSIONID, ''ffffffff40ffffff80ffffffffffffff'')],
         fault = None\<rparr>)
      = (''ffffffff40ffffff80ffffffffffffff'', None)"
proof -
  have h1: "Cookie \<lparr>jar = [(''lang'', ''en'')], fault = None\<rparr> SESSIONID
      = (None, Some ErrNoCookie)"
    by (simp add: Cookie_def SESSIONID_def)
  have h2: "genId (init (\<lambda>n. 0)
          (\<lambda>n. ([0xff, 0xff, 0xff, 0xff, 0xff, 0xff, 0xff, 0xff,
                 0xff, 0xff, 0xff, 0xff, 0xff, 0xff, 0xff, 0xff], None)))
      = ((''ffffffff40ffffff80ffffffffffffff'', None),
         init (\<lambda>n. 0)
          (\<lambda>n. ([0xff, 0xff, 0xff, 0xff, 0xff, 0xff, 0xff, 0xff,
                 0xff, 0xff, 0xff, 0xff, 0xff, 0xff, 0xff, 0xff], None))\<lparr>reads := 1\<rparr>)"
    by (simp add: genId_def rand_Read_def init_def hextable_def)
  show ?thesis
    using h1 requestSessionId_binds_fresh_id
      [OF h1 h2, of "[]" "init (\<lambda>n. 0) (\<lambda>n. ([], None))" "[]"]
    by simp
qed

subsection \<open>Looking a session up\<close>

lemma requestSessionId_cookie:
  "Cookie r SESSIONID = (Some ck, None) \<Longrightarrow> requestSessionId st w r = ((Value ck, None), st, w, r)"
  by (simp add: requestSessionId_def)

lemma SessionFor_id_found:
  assumes "sessions st = Some reg" and "reg sid = Some a"
  shows "SessionFor_id st sid =
    (nxt st,
     st\<lparr>heap := (heap st)(a := (heap st a)(LASTUSED \<mapsto> VTime (clock st (ticks st))),
                           nxt st := (heap st a)(LASTUSED \<mapsto> VTime (clock st (ticks st)))),
        ticks := ticks st + 1,
        nxt := nxt st + 1\<rparr>)"
  using assms by (simp add: SessionFor_id_def time_Now_def clone_def entries_def Let_def)

lemma SessionFor_id_new:
  assumes "reg = (case sessions st of None \<Rightarrow> Map.empty | Some m \<Rightarrow> m)" and "reg sid = None"
  shows "SessionFor_id st sid =
    (nxt st + 1,
     st\<lparr>sessions := Some (reg(sid \<mapsto> nxt st)),
        heap := (heap st)
          (nxt st := [SESSIONID \<mapsto> VStr sid, LASTUSED \<mapsto> VTime (clock st (ticks st))],
           nxt st + 1 := [SESSIONID \<mapsto> VStr sid, LASTUSED \<mapsto> VTime (clock st (ticks st))]),
        ticks := ticks st + 1,
        nxt := nxt st + 2\<rparr>)"
  using assms by (simp add: SessionFor_id_def time_Now_def clone_def entries_def Let_def)

lemma genId_frame:
  "clock (snd (genId st)) = clock st \<and> ticks (snd (genId st)) = ticks st
   \<and> sessions (snd (genId st)) = sessions st \<and> heap (snd (genId st)) = heap st
   \<and> nxt (snd (genId st)) = nxt st"
  by (auto simp: genId_def rand_Read_def Let_def split: prod.splits)

lemma requestSessionId_frame:
  "clock (fst (snd (requestSessionId st w r))) = clock st
   \<and> ticks (fst (snd (requestSessionId st w r))) = ticks st
   \<and> sessions (fst (snd (requestSessionId st w r))) = sessions st
   \<and> heap (fst (snd (requestSessionId st w r))) = heap st
   \<and> nxt (fst (snd (requestSessionId st w r))) = nxt st"
  using genId_frame [of st]
  by (auto simp: requestSessionId_def Let_def split: prod.splits)

lemma SessionFor_id_stamps:
  "stored_lastUsed (snd (SessionFor_id st sid)) sid = Some (clock st (ticks st))
   \<and> heap (snd (SessionFor_id st sid)) (fst (SessionFor_id st sid)) LASTUSED
       = Some (VTime (clock st (ticks st)))
   \<and> ticks (snd (SessionFor_id st sid)) = ticks st + 1
   \<and> clock (snd (SessionFor_id st sid)) = clock st"
proof (cases "(case sessions st of None \<Rightarrow> Map.empty | Some m \<Rightarrow> m) sid")
  case None
  show ?thesis
    by (simp add: SessionFor_id_new [OF refl None] stored_lastUsed_def sessions_get_def
        sindex_def)
next
  case (Some a)
  then obtain reg where "sessions st = Some reg" and "reg sid = Some a"
    by (cases "sessions st") simp_all
  then show ?thesis
    by (simp add: SessionFor_id_found stored_lastUsed_def sessions_get_def sindex_def)
qed

lemma SessionFor_stamps:
  assumes "fst (requestSessionId st w r) = (sid, None)"
  shows "stored_lastUsed (fst (snd (SessionFor st w r))) sid = Some (clock st (ticks st))
   \<and> sindex (fst (snd (SessionFor st w r))) (fst (fst (SessionFor st w r))) LASTUSED
       = VTime (clock st (ticks st))
   \<and> snd (fst (SessionFor st w r)) = None"
proof -
  obtain st0 w0 r0 where rq: "requestSessionId st w r = ((sid, None), st0, w0, r0)"
    using assms by (cases "requestSessionId st w r") auto
  have fr: "clock st0 = clock st" "ticks st0 = ticks st"
    using requestSessionId_frame [of st w r] by (simp_all add: rq)
  have "SessionFor st w r
      = ((Some (fst (SessionFor_id st0 sid)), None), snd (SessionFor_id st0 sid), w0, r0)"
    by (simp add: SessionFor_def rq split: prod.splits)
  then show ?thesis
    using SessionFor_id_stamps [of st0 sid] by (simp add: fr sindex_def)
qed

lemma Cookie_abc:
  "Cookie abc_request SESSIONID
     = (Some \<lparr>Name = SESSIONID, Value = ''abc'', Path = [], MaxAge = 0\<rparr>, None)"
  by (simp add: Cookie_def abc_request_def)

lemma SessionFor_fresh_world:
  "SessionFor fresh_world [] abc_request = ((Some 1, None), abc_world, [], abc_request)"
  by (simp add: SessionFor_def requestSessionId_cookie [OF Cookie_abc]
      SessionFor_id_new [OF refl] fresh_world_def init_def abc_world_def
      SESSIONID_def LASTUSED_def)

lemma login_world_reachable:
  "run [OpSessionFor abc_request,
        OpWrite 1 [SESSIONID \<mapsto> VStr ''abc'', LASTUSED \<mapsto> VTime 0, ''LoggedUser'' \<mapsto> VOther 5]]
     fresh_world = login_world"
  by (simp add: SessionFor_fresh_world login_world_def)

text \<open>
  C7. A record at address \<open>a\<close> carries the identifier \<open>sid\<close>, and \<^verbatim>\<open>Save\<close> on it
  returns normally. Then \<^verbatim>\<open>SessionFor\<close>, for a request whose session cookie is \<open>sid\<close>,
  succeeds, and the record it returns holds exactly the entries the saved record had,
  with the timestamp replaced by the reading of the clock: every key and value of the saved
  record apart from the timestamp, and no key of the entry the registry held before.
  The registry holds for \<open>sid\<close> the copy that \<^verbatim>\<open>Save\<close> made, with the same entries.
\<close>

theorem Save_then_SessionFor:
  assumes "heap st a SESSIONID = Some (VStr sid)"
    and "Save st (Some a) = (None, st1)"
    and "Cookie r SESSIONID = (Some ck, None)" and "Value ck = sid"
  shows "\<exists>c st2. SessionFor st1 w r = ((Some c, None), st2, w, r)
           \<and> heap st2 c = (heap st a)(LASTUSED \<mapsto> VTime (clock st (ticks st)))
           \<and> sessions_get st2 sid = Some (nxt st)
           \<and> heap st2 (nxt st) = (heap st a)(LASTUSED \<mapsto> VTime (clock st (ticks st)))"
proof -
  have sid: "Id st (Some a) = Inr sid"
    using assms(1) by (simp add: Id_def sindex_def)
  from assms(2) sid obtain reg where reg: "sessions st = Some reg"
    and st1: "st1 = st\<lparr>heap := (heap st)(nxt st := heap st a), nxt := nxt st + 1,
                        sessions := Some (reg(sid \<mapsto> nxt st))\<rparr>"
    by (auto simp: Save_def clone_def entries_def Let_def split: option.splits)
  have found: "SessionFor_id st1 sid =
    (nxt st1,
     st1\<lparr>heap := (heap st1)(nxt st := (heap st1 (nxt st))(LASTUSED \<mapsto> VTime (clock st1 (ticks st1))),
                           nxt st1 := (heap st1 (nxt st))(LASTUSED \<mapsto> VTime (clock st1 (ticks st1)))),
        ticks := ticks st1 + 1,
        nxt := nxt st1 + 1\<rparr>)"
    by (rule SessionFor_id_found [of st1 "reg(sid \<mapsto> nxt st)"]) (simp_all add: st1)
  have "SessionFor st1 w r = ((Some (nxt st1), None), snd (SessionFor_id st1 sid), w, r)"
    using assms(3,4) found by (simp add: SessionFor_def requestSessionId_cookie)
  then show ?thesis
    using found by (simp add: st1 sessions_get_def)
qed

theorem Save_then_SessionFor_witness:
  "\<exists>c st2. SessionFor (snd (Save login_world (Some 1))) [] abc_request
              = ((Some c, None), st2, [], abc_request)
     \<and> heap st2 c ''LoggedUser'' = Some (VOther 5)
     \<and> heap st2 c LASTUSED = Some (VTime Minute)"
proof -
  have h1: "heap login_world 1 SESSIONID = Some (VStr ''abc'')"
    by (simp add: login_world_def write_session_def abc_world_def SESSIONID_def LASTUSED_def)
  have "fst (Save login_world (Some 1)) = None"
    by (simp add: Save_def Id_def sindex_def clone_def Let_def login_world_def
        write_session_def abc_world_def SESSIONID_def LASTUSED_def)
  then have h2: "Save login_world (Some 1) = (None, snd (Save login_world (Some 1)))"
    by (simp add: prod_eq_iff)
  have h4: "Value \<lparr>Name = SESSIONID, Value = ''abc'', Path = [], MaxAge = 0\<rparr> = ''abc''"
    by simp
  have "heap login_world 1 ''LoggedUser'' = Some (VOther 5)"
    and "clock login_world (ticks login_world) = Minute"
    by (simp_all add: login_world_def write_session_def abc_world_def LASTUSED_def)
  then show ?thesis
    using Save_then_SessionFor [OF h1 h2 Cookie_abc h4, of "[]"]
    by (auto simp: LASTUSED_def)
qed

subsection \<open>The timestamp\<close>

lemma SessionFor_ticks:
  "clock (fst (snd (SessionFor st w r))) = clock st
   \<and> ticks st \<le> ticks (fst (snd (SessionFor st w r)))"
proof -
  obtain sid e st0 w0 r0 where rq: "requestSessionId st w r = ((sid, e), st0, w0, r0)"
    by (cases "requestSessionId st w r") auto
  have fr: "clock st0 = clock st" "ticks st0 = ticks st"
    using requestSessionId_frame [of st w r] by (simp_all add: rq)
  show ?thesis
    using SessionFor_id_stamps [of st0 sid]
    by (auto simp: SessionFor_def rq fr split: prod.splits)
qed

lemma Save_ticks: "clock (snd (Save st s)) = clock st \<and> ticks (snd (Save st s)) = ticks st"
  by (simp add: Save_def clone_def Let_def split: sum.splits option.splits)

lemma RemoveSession_ticks:
  "clock (fst (snd (RemoveSession st w r))) = clock st
   \<and> ticks (fst (snd (RemoveSession st w r))) = ticks st"
  by (simp add: RemoveSession_def Let_def split: prod.splits option.splits)

lemma expired_ticks:
  "clock (snd (expired st s)) = clock st \<and> ticks (snd (expired st s)) = ticks st + 1"
  by (simp add: expired_def time_Now_def split: val.splits)

lemma cleanupSessions_ticks:
  "clock (snd (cleanupSessions ks st)) = clock st
   \<and> ticks st \<le> ticks (snd (cleanupSessions ks st))"
proof (induction ks arbitrary: st)
  case Nil
  show ?case by simp
next
  case (Cons k ks)
  show ?case
  proof (cases "sessions st")
    case None
    then show ?thesis by simp
  next
    case (Some reg)
    show ?thesis
    proof (cases "reg k")
      case None
      then show ?thesis using Some Cons.IH [of st] by simp
    next
      case (Some a)
      obtain res st1 where ex: "expired st (Some a) = (res, st1)"
        by (cases "expired st (Some a)") auto
      have t1: "clock st1 = clock st" "ticks st1 = ticks st + 1"
        using expired_ticks [of st "Some a"] by (simp_all add: ex)
      show ?thesis
      proof (cases res)
        case (Inl p)
        then show ?thesis using \<open>sessions st = Some reg\<close> Some ex t1 by simp
      next
        case (Inr b)
        then show ?thesis
          using \<open>sessions st = Some reg\<close> Some ex t1
            Cons.IH [of "st1\<lparr>sessions := Some (reg(k := None))\<rparr>"] Cons.IH [of st1]
          by simp
      qed
    qed
  qed
qed

lemma step_ticks: "clock (step x st) = clock st \<and> ticks st \<le> ticks (step x st)"
  by (cases x)
    (simp_all add: SessionFor_ticks Save_ticks RemoveSession_ticks cleanupSessions_ticks
       write_session_def)

lemma run_ticks: "clock (run ops st) = clock st \<and> ticks st \<le> ticks (run ops st)"
proof (induction ops arbitrary: st)
  case Nil
  show ?case by simp
next
  case (Cons x xs)
  show ?case
    using Cons.IH [of "step x st"] step_ticks [of x st] by simp
qed

text \<open>
  C8. Every call of \<^verbatim>\<open>SessionFor\<close> that binds the request to an identifier \<open>sid\<close>
  sets the timestamp of the record stored for \<open>sid\<close>, and of the copy it returns, to
  the reading of the clock at that call, whether the record existed or was created. So,
  with a clock that never goes back, between a lookup for \<open>sid\<close> and a later one,
  whatever the process does in between, the stored timestamp after the second lookup is
  not before the stored timestamp after the first.
\<close>

theorem SessionFor_refreshes_lastUsed:
  assumes "mono (clock st)"
    and "fst (requestSessionId st w r) = (sid, None)"
    and "SessionFor st w r = (res1, st1, w1, r1)"
    and "st2 = run ops st1"
    and "fst (requestSessionId st2 w' r') = (sid, None)"
    and "SessionFor st2 w' r' = (res2, st3, w3, r3)"
  shows "stored_lastUsed st1 sid = Some (clock st (ticks st))
    \<and> sindex st1 (fst res1) LASTUSED = VTime (clock st (ticks st))
    \<and> stored_lastUsed st3 sid = Some (clock st2 (ticks st2))
    \<and> sindex st3 (fst res2) LASTUSED = VTime (clock st2 (ticks st2))
    \<and> clock st (ticks st) \<le> clock st2 (ticks st2)"
proof -
  have a: "stored_lastUsed st1 sid = Some (clock st (ticks st))
      \<and> sindex st1 (fst res1) LASTUSED = VTime (clock st (ticks st))"
    using SessionFor_stamps [OF assms(2)] by (simp add: assms(3))
  have b: "stored_lastUsed st3 sid = Some (clock st2 (ticks st2))
      \<and> sindex st3 (fst res2) LASTUSED = VTime (clock st2 (ticks st2))"
    using SessionFor_stamps [OF assms(5)] by (simp add: assms(6))
  have "clock st1 = clock st" and "ticks st \<le> ticks st1"
    using SessionFor_ticks [of st w r] by (simp_all add: assms(3))
  moreover have "clock st2 = clock st1" and "ticks st1 \<le> ticks st2"
    using run_ticks [of ops st1] by (simp_all add: assms(4))
  ultimately have "clock st2 = clock st" and "ticks st \<le> ticks st2"
    by simp_all
  then have "clock st (ticks st) \<le> clock st2 (ticks st2)"
    using assms(1) by (simp add: monoD)
  with a b show ?thesis by simp
qed

theorem SessionFor_refreshes_lastUsed_witness:
  "mono (clock fresh_world)
   \<and> stored_lastUsed abc_world ''abc'' = Some 0
   \<and> stored_lastUsed
        (fst (snd (SessionFor (run [OpCleanup [''abc'']] abc_world) [] abc_request))) ''abc''
      = Some (2 * Minute)"
proof -
  define st2 where "st2 = run [OpCleanup [''abc'']] abc_world"
  have h1: "mono (clock fresh_world)"
    by (simp add: fresh_world_def init_def mono_def Minute_def)
  have h2: "fst (requestSessionId fresh_world [] abc_request) = (''abc'', None)"
    by (simp add: requestSessionId_cookie [OF Cookie_abc])
  have h5: "fst (requestSessionId st2 [] abc_request) = (''abc'', None)"
    by (simp add: requestSessionId_cookie [OF Cookie_abc])
  have h6: "SessionFor st2 [] abc_request
      = (fst (SessionFor st2 [] abc_request),
         fst (snd (SessionFor st2 [] abc_request)),
         fst (snd (snd (SessionFor st2 [] abc_request))),
         snd (snd (snd (SessionFor st2 [] abc_request))))"
    by simp
  have t0: "clock fresh_world (ticks fresh_world) = 0"
    by (simp add: fresh_world_def init_def)
  have "st2 = abc_world\<lparr>ticks := 2\<rparr>"
    by (simp add: st2_def abc_world_def expired_def time_Now_def sindex_def time_Sub_def
        maxDuration_def minDuration_def MAXSESSIONAGE_def Minute_def LASTUSED_def SESSIONID_def)
  then have t2: "clock st2 (ticks st2) = 2 * Minute"
    by (simp add: abc_world_def)
  have "mono (clock fresh_world)
   \<and> stored_lastUsed abc_world ''abc'' = Some 0
   \<and> stored_lastUsed (fst (snd (SessionFor st2 [] abc_request))) ''abc'' = Some (2 * Minute)"
    using h1 SessionFor_refreshes_lastUsed [OF h1 h2 SessionFor_fresh_world st2_def h5 h6]
    by (simp add: t0 t2)
  then show ?thesis
    unfolding st2_def .
qed

subsection \<open>The copy a caller holds\<close>














































subsection \<open>The sweep\<close>

lemma time_Sub_expired: "MAXSESSIONAGE \<le> time_Sub now t \<longleftrightarrow> MAXSESSIONAGE \<le> now - t"
  by (simp add: time_Sub_def MAXSESSIONAGE_def Minute_def maxDuration_def minDuration_def Let_def)

lemma expired_stamped:
  "heap st a LASTUSED = Some (VTime t) \<Longrightarrow>
   expired st (Some a)
     = (Inr (MAXSESSIONAGE \<le> clock st (ticks st) - t), st\<lparr>ticks := ticks st + 1\<rparr>)"
  by (simp add: expired_def time_Now_def sindex_def time_Sub_expired)

lemma cleanupSessions_sweep:
  assumes "sessions st = Some reg" and "distinct ks"
    and "\<forall>k\<in>set ks. \<exists>a t. reg k = Some a \<and> heap st a LASTUSED = Some (VTime t)"
  shows "\<exists>reg'. cleanupSessions ks st
            = (None, st\<lparr>sessions := Some reg', ticks := ticks st + length ks\<rparr>)
      \<and> (\<forall>k. k \<notin> set ks \<longrightarrow> reg' k = reg k)
      \<and> (\<forall>i<length ks. \<forall>a t. reg (ks ! i) = Some a \<longrightarrow> heap st a LASTUSED = Some (VTime t) \<longrightarrow>
            reg' (ks ! i)
              = (if MAXSESSIONAGE \<le> clock st (ticks st + i) - t then None else Some a))"
  using assms
proof (induction ks arbitrary: st reg)
  case Nil
  have "st\<lparr>sessions := Some reg, ticks := ticks st + length ([]::string list)\<rparr> = st"
    using Nil.prems(1) by simp
  then show ?case
    by (intro exI [of _ reg]) simp
next
  case (Cons k ks)
  from Cons.prems(3) obtain a t where a: "reg k = Some a"
    and t: "heap st a LASTUSED = Some (VTime t)"
    by auto
  define b where "b = (MAXSESSIONAGE \<le> clock st (ticks st) - t)"
  define regn where "regn = (if b then reg(k := None) else reg)"
  define stn where "stn = st\<lparr>sessions := Some regn, ticks := ticks st + 1\<rparr>"
  have k: "k \<notin> set ks" and d: "distinct ks"
    using Cons.prems(2) by simp_all
  have stn: "stn = (if b then st\<lparr>ticks := ticks st + 1\<rparr>\<lparr>sessions := Some (reg(k := None))\<rparr>
                    else st\<lparr>ticks := ticks st + 1\<rparr>)"
    using Cons.prems(1) by (cases st) (simp add: stn_def regn_def)
  have unfold: "cleanupSessions (k # ks) st = cleanupSessions ks stn"
    using Cons.prems(1) a expired_stamped [OF t]
    by (simp add: stn b_def)
  have p1: "sessions stn = Some regn"
    by (simp add: stn_def)
  have p3: "\<forall>k'\<in>set ks. \<exists>a t. regn k' = Some a \<and> heap stn a LASTUSED = Some (VTime t)"
    using Cons.prems(3) k by (auto simp: regn_def stn_def)
  from Cons.IH [OF p1 d p3] obtain reg' where
    run: "cleanupSessions ks stn
            = (None, stn\<lparr>sessions := Some reg', ticks := ticks stn + length ks\<rparr>)"
    and out: "\<forall>k'. k' \<notin> set ks \<longrightarrow> reg' k' = regn k'"
    and inn: "\<forall>i<length ks. \<forall>a t. regn (ks ! i) = Some a \<longrightarrow>
            heap stn a LASTUSED = Some (VTime t) \<longrightarrow>
            reg' (ks ! i)
              = (if MAXSESSIONAGE \<le> clock stn (ticks stn + i) - t then None else Some a)"
    by blast
  have r1: "cleanupSessions (k # ks) st
      = (None, st\<lparr>sessions := Some reg', ticks := ticks st + length (k # ks)\<rparr>)"
    by (simp only: unfold run) (simp add: stn_def)
  have r2: "\<forall>k'. k' \<notin> set (k # ks) \<longrightarrow> reg' k' = reg k'"
    using out by (simp add: regn_def)
  have r3: "reg' ((k # ks) ! i)
      = (if MAXSESSIONAGE \<le> clock st (ticks st + i) - t' then None else Some a')"
    if i: "i < length (k # ks)" and a': "reg ((k # ks) ! i) = Some a'"
      and t': "heap st a' LASTUSED = Some (VTime t')" for i a' t'
  proof (cases i)
    case 0
    have "reg' k = regn k"
      using out k by simp
    moreover have "a' = a" and "t' = t"
      using a a' t t' 0 by simp_all
    ultimately show ?thesis
      using 0 a by (simp add: regn_def b_def)
  next
    case (Suc j)
    have j: "j < length ks"
      using i Suc by simp
    then have "ks ! j \<noteq> k"
      using k by (metis nth_mem)
    then have "regn (ks ! j) = Some a'"
      using a' Suc by (simp add: regn_def)
    moreover have "heap stn a' LASTUSED = Some (VTime t')"
      using t' by (simp add: stn_def)
    ultimately have "reg' (ks ! j)
        = (if MAXSESSIONAGE \<le> clock stn (ticks stn + j) - t' then None else Some a')"
      using inn j by blast
    then show ?thesis
      by (simp add: Suc stn_def)
  qed
  show ?case
    using r1 r2 r3 by (intro exI [of _ reg']) blast
qed

text \<open>
  C3. The sweep visits the keys of the registry, each once, in some order \<open>ks\<close>, and every
  record carries a timestamp. Then the sweep ends without a panic, adds no entry, and
  deletes the record it visits at position \<open>i\<close> exactly when \<open>now - last_used\<close> is at least
  30 minutes, \<open>now\<close> being the reading of the clock taken for that record; a record it does not
  delete stays as it was. So a record last used at \<open>now - 30m - 1s\<close> is removed and one last
  used at \<open>now - 29m\<close> is kept.
\<close>

theorem cleanupSessions_expiration:
  assumes "sessions st = Some reg" and "distinct ks" and "set ks = dom reg"
    and "\<forall>k a. reg k = Some a \<longrightarrow> (\<exists>t. heap st a LASTUSED = Some (VTime t))"
  shows "\<exists>reg'. cleanupSessions ks st
            = (None, st\<lparr>sessions := Some reg', ticks := ticks st + length ks\<rparr>)
      \<and> dom reg' \<subseteq> dom reg
      \<and> (\<forall>i<length ks. \<forall>a t. reg (ks ! i) = Some a \<longrightarrow> heap st a LASTUSED = Some (VTime t) \<longrightarrow>
            (reg' (ks ! i) = None \<longleftrightarrow> MAXSESSIONAGE \<le> clock st (ticks st + i) - t)
          \<and> (reg' (ks ! i) \<noteq> None \<longrightarrow> reg' (ks ! i) = Some a)
          \<and> (t = clock st (ticks st + i) - 30 * Minute - Second \<longrightarrow> reg' (ks ! i) = None)
          \<and> (t = clock st (ticks st + i) - 29 * Minute \<longrightarrow> reg' (ks ! i) = Some a))"
proof -
  have "\<forall>k\<in>set ks. \<exists>a t. reg k = Some a \<and> heap st a LASTUSED = Some (VTime t)"
    using assms(3,4) by (metis domD)
  from cleanupSessions_sweep [OF assms(1,2) this] obtain reg' where
    run: "cleanupSessions ks st
            = (None, st\<lparr>sessions := Some reg', ticks := ticks st + length ks\<rparr>)"
    and out: "\<forall>k. k \<notin> set ks \<longrightarrow> reg' k = reg k"
    and inn: "\<forall>i<length ks. \<forall>a t. reg (ks ! i) = Some a \<longrightarrow>
            heap st a LASTUSED = Some (VTime t) \<longrightarrow>
            reg' (ks ! i)
              = (if MAXSESSIONAGE \<le> clock st (ticks st + i) - t then None else Some a)"
    by blast
  have "dom reg' \<subseteq> dom reg"
  proof
    fix k assume "k \<in> dom reg'"
    then show "k \<in> dom reg"
      using out assms(3) by (cases "k \<in> set ks") auto
  qed
  moreover have "(reg' (ks ! i) = None \<longleftrightarrow> MAXSESSIONAGE \<le> clock st (ticks st + i) - t)
          \<and> (reg' (ks ! i) \<noteq> None \<longrightarrow> reg' (ks ! i) = Some a)
          \<and> (t = clock st (ticks st + i) - 30 * Minute - Second \<longrightarrow> reg' (ks ! i) = None)
          \<and> (t = clock st (ticks st + i) - 29 * Minute \<longrightarrow> reg' (ks ! i) = Some a)"
    if "i < length ks" and "reg (ks ! i) = Some a" and "heap st a LASTUSED = Some (VTime t)"
    for i a t
  proof -
    have "reg' (ks ! i)
        = (if MAXSESSIONAGE \<le> clock st (ticks st + i) - t then None else Some a)"
      using inn that by blast
    then show ?thesis
      by (simp add: MAXSESSIONAGE_def Minute_def Second_def)
  qed
  ultimately show ?thesis
    using run by (intro exI [of _ reg']) blast
qed

theorem cleanupSessions_expiration_witness:
  "fst (cleanupSessions [''old'', ''new''] sweep_world) = None
   \<and> sessions_get (snd (cleanupSessions [''old'', ''new''] sweep_world)) ''old'' = None
   \<and> sessions_get (snd (cleanupSessions [''old'', ''new''] sweep_world)) ''new'' = Some 1"
proof -
  have h1: "sessions sweep_world = Some [''old'' \<mapsto> 0, ''new'' \<mapsto> 1]"
    by (simp add: sweep_world_def)
  have h2: "distinct [''old'', ''new'']"
    by simp
  have h3: "set [''old'', ''new''] = dom [''old'' \<mapsto> 0::nat, ''new'' \<mapsto> 1]"
    by auto
  have h4: "\<forall>k a. [''old'' \<mapsto> 0::nat, ''new'' \<mapsto> 1] k = Some a
      \<longrightarrow> (\<exists>t. heap sweep_world a LASTUSED = Some (VTime t))"
    by (simp add: sweep_world_def LASTUSED_def SESSIONID_def)
  from cleanupSessions_expiration [OF h1 h2 h3 h4] obtain reg' where
    run: "cleanupSessions [''old'', ''new''] sweep_world
            = (None, sweep_world\<lparr>sessions := Some reg',
                 ticks := ticks sweep_world + length [''old'', ''new'']\<rparr>)"
    and inn: "\<forall>i<length [''old'', ''new'']. \<forall>a t.
        [''old'' \<mapsto> 0::nat, ''new'' \<mapsto> 1] ([''old'', ''new''] ! i) = Some a \<longrightarrow>
        heap sweep_world a LASTUSED = Some (VTime t) \<longrightarrow>
          (t = clock sweep_world (ticks sweep_world + i) - 30 * Minute - Second
             \<longrightarrow> reg' ([''old'', ''new''] ! i) = None)
        \<and> (t = clock sweep_world (ticks sweep_world + i) - 29 * Minute
             \<longrightarrow> reg' ([''old'', ''new''] ! i) = Some a)"
    by blast
  have "reg' ''old'' = None"
    using inn [rule_format, of 0 0 0]
    by (simp add: sweep_world_def LASTUSED_def SESSIONID_def)
  moreover have "reg' ''new'' = Some 1"
    using inn [rule_format, of 1 1 "61 * Second"]
    by (simp add: sweep_world_def LASTUSED_def SESSIONID_def Minute_def Second_def)
  ultimately show ?thesis
    unfolding run by (simp add: sessions_get_def)
qed

end
